theory Spec2Isabelle
  imports Main
begin

section \<open>Console support layer of routersploit: \<open>routersploit/utils.py\<close>\<close>

text \<open>
  The module is Python 2 code (\<open>string.letters\<close>, \<open>dict.keys()\<close> returning a
  list) using \<open>from __future__ import print_function\<close>.  Strings are byte strings,
  modelled as \<open>string\<close>.  Console output is modelled as the list of writes made so
  far, one entry per call of the built-in \<open>print\<close>, kept in the field
  \<open>written\<close> of an extensible record, so that a command handler may own further
  state in the extension.  A function that may raise returns a sum, \<open>Inl\<close> the
  exception, together with the state reached.
\<close>

subsection \<open>Exceptions, streams and the console\<close>

datatype exn =
    TypeError string
  | KeyError string
  | NameError string
  | ValueError string
  | IndexError string
  | AttributeError string
  | MissingSchema string
  | InvalidSchema string
  | ConnectionError string
  | RequestException string
  | OtherException string

text \<open>\<open>str(err)\<close> of an exception: its message.\<close>

fun exn_str :: "exn \<Rightarrow> string" where
  "exn_str (TypeError m) = m"
| "exn_str (KeyError m) = m"
| "exn_str (NameError m) = m"
| "exn_str (ValueError m) = m"
| "exn_str (IndexError m) = m"
| "exn_str (AttributeError m) = m"
| "exn_str (MissingSchema m) = m"
| "exn_str (InvalidSchema m) = m"
| "exn_str (ConnectionError m) = m"
| "exn_str (RequestException m) = m"
| "exn_str (OtherException m) = m"

datatype stream = Stdout | Stderr | FileObj nat

record world =
  written :: "(stream \<times> string) list"

subsection \<open>String helpers of the Python runtime\<close>

text \<open>\<open>s.replace(old, new)\<close> for one-character \<open>old\<close> and \<open>new\<close>.\<close>

definition replace_char :: "char \<Rightarrow> char \<Rightarrow> string \<Rightarrow> string" where
  "replace_char old new s = map (\<lambda>c. if c = old then new else c) s"

text \<open>\<open>sep.join(parts)\<close>.\<close>

fun join_str :: "string \<Rightarrow> string list \<Rightarrow> string" where
  "join_str sep [] = []"
| "join_str sep [x] = x"
| "join_str sep (x # y # ys) = x @ sep @ join_str sep (y # ys)"

text \<open>Decimal rendering of a non-negative integer, as \<open>'{}'.format(n)\<close> does.\<close>

definition digit_char :: "nat \<Rightarrow> char" where
  "digit_char d = char_of (48 + d)"

fun show_nat :: "nat \<Rightarrow> string" where
  "show_nat n = (if n < 10 then [digit_char n] else show_nat (n div 10) @ [digit_char (n mod 10)])"

declare show_nat.simps [simp del]

text \<open>ASCII case conversion of \<open>str.lower\<close>, \<open>str.upper\<close> and \<open>str.capitalize\<close>.\<close>

definition lower_char :: "char \<Rightarrow> char" where
  "lower_char c = (let n = (of_char c :: nat) in if 65 \<le> n \<and> n \<le> 90 then char_of (n + 32) else c)"

definition upper_char :: "char \<Rightarrow> char" where
  "upper_char c = (let n = (of_char c :: nat) in if 97 \<le> n \<and> n \<le> 122 then char_of (n - 32) else c)"

definition lower :: "string \<Rightarrow> string" where
  "lower s = map lower_char s"

fun capitalize :: "string \<Rightarrow> string" where
  "capitalize [] = []"
| "capitalize (c # cs) = upper_char c # map lower_char cs"

text \<open>A name between single quotes, as Python's messages show it.\<close>

definition quoted :: "string \<Rightarrow> string" where
  "quoted s = CHR 0x27 # s @ [CHR 0x27]"

subsection \<open>The built-in \<open>print\<close> function\<close>

text \<open>
  The keyword arguments a caller of the printing functions may pass.  \<open>None\<close> in a
  field means that the key is not in \<open>kwargs\<close>.  For \<open>color\<close>, \<open>Some None\<close> is
  the key given with the value \<open>None\<close>.  \<open>sep=None\<close> and \<open>end=None\<close> mean the
  defaults to \<open>print\<close>, as the absent key does.
\<close>

record kwargs =
  kw_verbose :: "bool option"
  kw_color :: "string option option"
  kw_sep :: "string option"
  kw_end :: "string option"
  kw_file :: "stream option"

definition no_kwargs :: kwargs where
  "no_kwargs = \<lparr>kw_verbose = None, kw_color = None, kw_sep = None, kw_end = None, kw_file = None\<rparr>"

text \<open>
  \<open>print(*args, **kw)\<close>: only \<open>sep\<close>, \<open>end\<close> and \<open>file\<close> are keyword arguments
  of the built-in; any other key raises \<open>TypeError\<close> before anything is written.
  (When both foreign keys are present the one named in the message depends on the
  dictionary's order; the model names \<open>verbose\<close>.)  One call is one entry of
  \<open>written\<close>: the arguments joined by \<open>sep\<close>, then \<open>end\<close>.
\<close>

definition invalid_keyword :: "string \<Rightarrow> exn" where
  "invalid_keyword k = TypeError (quoted k @ '' is an invalid keyword argument for this function'')"

definition py_print ::
  "string list \<Rightarrow> kwargs \<Rightarrow> 'a world_scheme \<Rightarrow> (exn + unit) \<times> 'a world_scheme" where
  "py_print args kw w =
     (if kw_verbose kw \<noteq> None then (Inl (invalid_keyword ''verbose''), w)
      else if kw_color kw \<noteq> None then (Inl (invalid_keyword ''color''), w)
      else
        let sep = (case kw_sep kw of None \<Rightarrow> '' '' | Some s \<Rightarrow> s);
            end = (case kw_end kw of None \<Rightarrow> [CHR 0x0A] | Some e \<Rightarrow> e);
            file = (case kw_file kw of None \<Rightarrow> Stdout | Some f \<Rightarrow> f)
        in (Inr (), w\<lparr>written := written w @ [(file, join_str sep args @ end)]\<rparr>))"

text \<open>Sequencing of two effects: an exception of the first skips the second.\<close>

definition and_then ::
  "(exn + 'a) \<times> 'w \<Rightarrow> ('a \<Rightarrow> 'w \<Rightarrow> (exn + 'b) \<times> 'w) \<Rightarrow> (exn + 'b) \<times> 'w" where
  "and_then r k = (case r of (Inl e, w) \<Rightarrow> (Inl e, w) | (Inr x, w) \<Rightarrow> k x w)"

subsection \<open>\<open>__cprint\<close> and the four printing functions\<close>

definition colors :: "(string \<times> nat) list" where
  "colors = [(''grey'', 30), (''red'', 31), (''green'', 32), (''yellow'', 33),
             (''blue'', 34), (''magenta'', 35), (''cyan'', 36), (''white'', 37)]"

text \<open>
  \<open>__cprint(*args, **kwargs)\<close>.  \<open>with print_lock\<close> has no effect on a single
  thread and is not modelled.  The test \<open>if color\<close> is false for \<open>None\<close> and for the
  empty string.  The coloured branch passes \<open>end\<close>, \<open>file\<close> and \<open>sep\<close> to
  \<open>print\<close> one by one; the other branch passes the whole of \<open>kwargs\<close>.
\<close>

definition cprint ::
  "string list \<Rightarrow> kwargs \<Rightarrow> 'a world_scheme \<Rightarrow> (exn + unit) \<times> 'a world_scheme" where
  "cprint args kw w =
     (if \<not> (case kw_verbose kw of None \<Rightarrow> True | Some v \<Rightarrow> v) then (Inr (), w)
      else
        (case (case kw_color kw of None \<Rightarrow> None | Some c \<Rightarrow> c) of
           None \<Rightarrow> py_print args kw w
         | Some color \<Rightarrow>
             if color = [] then py_print args kw w
             else
               let file' = (case kw_file kw of None \<Rightarrow> Stdout | Some f \<Rightarrow> f);
                   sep = (case kw_sep kw of None \<Rightarrow> '' '' | Some s \<Rightarrow> s);
                   end = (case kw_end kw of None \<Rightarrow> [CHR 0x0A] | Some e \<Rightarrow> e)
               in (case map_of colors color of
                     None \<Rightarrow> (Inl (KeyError (quoted color)), w)
                   | Some code \<Rightarrow>
                       and_then (py_print [CHR 0x1B # ''['' @ show_nat code @ ''m'']
                                   (no_kwargs\<lparr>kw_end := Some [], kw_file := Some file', kw_sep := Some sep\<rparr>) w)
                         (\<lambda>_ w1.
                       and_then (py_print args
                                   (no_kwargs\<lparr>kw_end := Some [], kw_file := Some file', kw_sep := Some sep\<rparr>) w1)
                         (\<lambda>_ w2.
                       py_print [CHR 0x1B # ''[0m'']
                         (no_kwargs\<lparr>kw_sep := Some sep, kw_end := Some end, kw_file := Some file'\<rparr>) w2)))))"

definition error_glyph :: string where
  "error_glyph = CHR 0x1B # ''[91m[-]'' @ CHR 0x1B # ''[0m''"

definition status_glyph :: string where
  "status_glyph = CHR 0x1B # ''[94m[*]'' @ CHR 0x1B # ''[0m''"

definition success_glyph :: string where
  "success_glyph = CHR 0x1B # ''[92m[+]'' @ CHR 0x1B # ''[0m''"

definition print_error ::
  "string list \<Rightarrow> kwargs \<Rightarrow> 'a world_scheme \<Rightarrow> (exn + unit) \<times> 'a world_scheme" where
  "print_error args kw w = cprint (error_glyph # args) kw w"

definition print_status ::
  "string list \<Rightarrow> kwargs \<Rightarrow> 'a world_scheme \<Rightarrow> (exn + unit) \<times> 'a world_scheme" where
  "print_status args kw w = cprint (status_glyph # args) kw w"

definition print_success ::
  "string list \<Rightarrow> kwargs \<Rightarrow> 'a world_scheme \<Rightarrow> (exn + unit) \<times> 'a world_scheme" where
  "print_success args kw w = cprint (success_glyph # args) kw w"

definition print_info ::
  "string list \<Rightarrow> kwargs \<Rightarrow> 'a world_scheme \<Rightarrow> (exn + unit) \<times> 'a world_scheme" where
  "print_info args kw w = cprint args kw w"

subsection \<open>\<open>pythonize_path\<close>, \<open>humanize_path\<close>\<close>

definition pythonize_path :: "string \<Rightarrow> string" where
  "pythonize_path path = replace_char (CHR ''/'') (CHR ''.'') path"

definition humanize_path :: "string \<Rightarrow> string" where
  "humanize_path path = replace_char (CHR ''.'') (CHR ''/'') path"

subsection \<open>\<open>module_required\<close>\<close>

text \<open>
  The value of \<open>self.current_module\<close>: \<open>None\<close>, a boolean, an integer, a
  string, a list, or a module object, whose class defines neither \<open>__nonzero__\<close>
  nor \<open>__len__\<close>.
\<close>

datatype 'm flag =
    NoneVal
  | BoolVal bool
  | IntVal int
  | StrVal string
  | ListVal "string list"
  | ModuleObj 'm

text \<open>
  Python's truth test, as \<open>not x\<close> and \<open>if x\<close> apply it: \<open>None\<close>,
  \<open>False\<close>, zero, the empty string and the empty list are false, every other
  value is true.
\<close>

fun truthy :: "'m flag \<Rightarrow> bool" where
  "truthy NoneVal = False"
| "truthy (BoolVal b) = b"
| "truthy (IntVal i) = (i \<noteq> 0)"
| "truthy (StrVal s) = (s \<noteq> [])"
| "truthy (ListVal xs) = (xs \<noteq> [])"
| "truthy (ModuleObj m) = True"

text \<open>The shell object the decorated command handlers receive as \<open>self\<close>.\<close>

record 'm shell =
  current_module :: "'m flag"

text \<open>
  The wrapper that \<open>module_required(fn)\<close> returns.  A handler takes \<open>self\<close>, its
  arguments and the state, and returns its result (\<open>None\<close> for Python's \<open>None\<close>) or
  raises.  The bare \<open>return\<close> of the wrapper returns \<open>None\<close>.  The attribute
  \<open>__decorators__\<close> that the decorator sets on the wrapper plays no part in a call.
\<close>

definition module_required ::
  "(('m, 's) shell_scheme \<Rightarrow> 'args \<Rightarrow> 'a world_scheme \<Rightarrow> (exn + 'r option) \<times> 'a world_scheme) \<Rightarrow>
   ('m, 's) shell_scheme \<Rightarrow> 'args \<Rightarrow> 'a world_scheme \<Rightarrow> (exn + 'r option) \<times> 'a world_scheme" where
  "module_required fn self args w =
     (if \<not> truthy (current_module self)
      then and_then (print_error [''You have to activate any module with '' @ quoted ''use'' @ '' command.''] no_kwargs w)
             (\<lambda>_ w'. (Inr None, w'))
      else fn self args w)"

subsection \<open>\<open>stop_after\<close>\<close>

text \<open>
  \<open>s.split(sep, maxsplit)\<close> with a one-character separator: at most \<open>n\<close> cuts, from
  the left; neighbouring separators give empty pieces.  A negative \<open>maxsplit\<close> is no
  limit, and a string has at most as many separators as characters.
\<close>

fun split_n :: "char \<Rightarrow> nat \<Rightarrow> string \<Rightarrow> string list" where
  "split_n sep n [] = [[]]"
| "split_n sep 0 (c # cs) = [c # cs]"
| "split_n sep (Suc n) (c # cs) =
     (if c = sep then [] # split_n sep n cs
      else (case split_n sep (Suc n) cs of
              [] \<Rightarrow> [[c]]
            | p # ps \<Rightarrow> (c # p) # ps))"

definition py_split :: "char \<Rightarrow> int \<Rightarrow> string \<Rightarrow> string list" where
  "py_split sep maxsplit s =
     (if maxsplit < 0 then split_n sep (length s) s else split_n sep (nat maxsplit) s)"

text \<open>
  A positional argument of a completion callback: a string, or an object of another
  type, given by the name of its type, which has no method \<open>split\<close>.
\<close>

datatype arg = StrArg string | ObjArg string

text \<open>\<open>args[1].split(' ', space_number)\<close> with the exceptions it may raise.\<close>

definition split_line :: "int \<Rightarrow> arg list \<Rightarrow> exn + string list" where
  "split_line space_number args =
     (if length args \<le> 1 then Inl (IndexError ''tuple index out of range'')
      else (case args ! 1 of
              StrArg line \<Rightarrow> Inr (py_split (CHR '' '') space_number line)
            | ObjArg t \<Rightarrow> Inl (AttributeError (quoted t @ '' object has no attribute '' @ quoted ''split''))))"

text \<open>
  The wrapper \<open>stop_after(space_number)(wrapped_function)\<close>.  \<open>except Exception\<close>
  catches every exception of the inspection, prints it with the built-in \<open>print\<close> and
  falls through to the wrapped callback.
\<close>

definition stop_after ::
  "int \<Rightarrow> ('self \<Rightarrow> arg list \<Rightarrow> 'k \<Rightarrow> 'a world_scheme \<Rightarrow> (exn + string list) \<times> 'a world_scheme) \<Rightarrow>
   'self \<Rightarrow> arg list \<Rightarrow> 'k \<Rightarrow> 'a world_scheme \<Rightarrow> (exn + string list) \<times> 'a world_scheme" where
  "stop_after space_number wrapped_function self args kw w =
     (case split_line space_number args of
        Inr pieces \<Rightarrow>
          if int (length pieces) = space_number + 1 then (Inr [], w)
          else wrapped_function self args kw w
      | Inl err \<Rightarrow>
          and_then (py_print [exn_str err] no_kwargs w)
            (\<lambda>_ w'. wrapped_function self args kw w'))"

subsection \<open>\<open>print_table\<close>\<close>

text \<open>
  A table cell: a string, or a value without \<open>len()\<close> (\<open>None\<close>, a number), given
  by the text that formatting it yields.
\<close>

datatype cell = Text string | Unsized string

fun py_len :: "cell \<Rightarrow> exn + nat" where
  "py_len (Text s) = Inr (length s)"
| "py_len (Unsized s) = Inl (TypeError ''object has no len()'')"

fun cell_str :: "cell \<Rightarrow> string" where
  "cell_str (Text s) = s"
| "cell_str (Unsized s) = s"

text \<open>The local function \<open>custom_len\<close>: \<open>len(x)\<close>, and 0 where that raises \<open>TypeError\<close>.\<close>

definition custom_len :: "cell \<Rightarrow> nat" where
  "custom_len x = (case py_len x of Inr n \<Rightarrow> n | Inl e \<Rightarrow> 0)"

text \<open>
  \<open>max(a, *rest)\<close>: with no further argument the built-in takes its one argument
  for an iterable, and an integer is none.
\<close>

definition py_max :: "int \<Rightarrow> int list \<Rightarrow> exn + int" where
  "py_max a rest =
     (if rest = [] then Inl (TypeError (quoted ''int'' @ '' object is not iterable''))
      else Inr (fold max rest a))"

text \<open>
  \<open>'{:<{}}'.format(s, width)\<close> for a string: left-justified, padded with spaces to
  \<open>width\<close>, never cut.  A negative width reads as a sign in the format
  specification, which strings refuse.
\<close>

definition format_left :: "string \<Rightarrow> int \<Rightarrow> exn + string" where
  "format_left s width =
     (if width < 0 then Inl (ValueError ''Sign not allowed in string format specifier'')
      else Inr (s @ replicate (nat width - length s) (CHR '' '')))"

text \<open>\<open>s * n\<close>: a string repeated.\<close>

definition repeat_str :: "string \<Rightarrow> nat \<Rightarrow> string" where
  "repeat_str s n = concat (replicate n s)"

text \<open>\<open>map(lambda x: custom_len(x[idx]), args)\<close>; a row too short for \<open>idx\<close> raises.\<close>

fun column_lens :: "nat \<Rightarrow> cell list list \<Rightarrow> exn + int list" where
  "column_lens idx [] = Inr []"
| "column_lens idx (x # xs) =
     (if length x \<le> idx then Inl (IndexError ''tuple index out of range'')
      else (case column_lens idx xs of
              Inl e \<Rightarrow> Inl e
            | Inr lens \<Rightarrow> Inr (int (custom_len (x ! idx)) # lens)))"

text \<open>
  The loop over \<open>enumerate(headers)\<close>, on the triple \<open>fill\<close>, \<open>headers_line\<close>,
  \<open>headers_separator_line\<close>.  The arguments of \<open>max\<close> are evaluated before the call.
\<close>

fun headers_loop ::
  "(nat \<times> string) list \<Rightarrow> cell list list \<Rightarrow> int \<Rightarrow> string \<Rightarrow>
   int list \<times> string \<times> string \<Rightarrow> exn + int list \<times> string \<times> string" where
  "headers_loop [] args extra_fill header_separator acc = Inr acc"
| "headers_loop ((idx, header) # rest) args extra_fill header_separator (fill, headers_line, headers_separator_line) =
     (case column_lens idx args of
        Inl e \<Rightarrow> Inl e
      | Inr lens \<Rightarrow>
     (case py_max (int (length header)) lens of
        Inl e \<Rightarrow> Inl e
      | Inr m \<Rightarrow>
          let current_line_fill = m + extra_fill in
          (case format_left header current_line_fill of
             Inl e \<Rightarrow> Inl e
           | Inr h \<Rightarrow>
               (case format_left (repeat_str header_separator (length header)) current_line_fill of
                  Inl e \<Rightarrow> Inl e
                | Inr s \<Rightarrow>
                    headers_loop rest args extra_fill header_separator
                      (fill @ [current_line_fill], headers_line @ h, headers_separator_line @ s)))))"

text \<open>The inner loop over \<open>enumerate(arg)\<close>, building \<open>content_line\<close>.\<close>

fun content_loop :: "(nat \<times> cell) list \<Rightarrow> int list \<Rightarrow> string \<Rightarrow> exn + string" where
  "content_loop [] fill content_line = Inr content_line"
| "content_loop ((idx, element) # rest) fill content_line =
     (if length fill \<le> idx then Inl (IndexError ''list index out of range'')
      else (case format_left (cell_str element) (fill ! idx) of
              Inl e \<Rightarrow> Inl e
            | Inr s \<Rightarrow> content_loop rest fill (content_line @ s)))"

text \<open>The loop over the rows, one \<open>print\<close> for each.\<close>

fun rows_loop ::
  "cell list list \<Rightarrow> int list \<Rightarrow> 'a world_scheme \<Rightarrow> (exn + unit) \<times> 'a world_scheme" where
  "rows_loop [] fill w = (Inr (), w)"
| "rows_loop (arg # args) fill w =
     (case content_loop (List.enumerate 0 arg) fill ''   '' of
        Inl e \<Rightarrow> (Inl e, w)
      | Inr content_line \<Rightarrow>
          and_then (py_print [content_line] no_kwargs w) (\<lambda>_ w'. rows_loop args fill w'))"

text \<open>
  \<open>print_table(headers, *args, **kwargs)\<close>; the two keyword arguments are \<open>None\<close>
  when not given.
\<close>

definition print_table ::
  "string list \<Rightarrow> cell list list \<Rightarrow> int option \<Rightarrow> string option \<Rightarrow> 'a world_scheme \<Rightarrow>
   (exn + unit) \<times> 'a world_scheme" where
  "print_table headers args kw_extra_fill kw_header_separator w =
     (let extra_fill = (case kw_extra_fill of None \<Rightarrow> 5 | Some n \<Rightarrow> n);
          header_separator = (case kw_header_separator of None \<Rightarrow> ''-'' | Some s \<Rightarrow> s)
      in
        if \<not> list_all (\<lambda>x. length x = length headers) args
        then print_error [''Headers and table rows tuples should be the same length.''] no_kwargs w
        else
          (case headers_loop (List.enumerate 0 headers) args extra_fill header_separator ([], ''   '', ''   '') of
             Inl e \<Rightarrow> (Inl e, w)
           | Inr (fill, headers_line, headers_separator_line) \<Rightarrow>
               and_then (py_print [] no_kwargs w) (\<lambda>_ w1.
               and_then (py_print [headers_line] no_kwargs w1) (\<lambda>_ w2.
               and_then (py_print [headers_separator_line] no_kwargs w2) (\<lambda>_ w3.
               and_then (rows_loop args fill w3) (\<lambda>_ w4.
               py_print [] no_kwargs w4))))))"

subsection \<open>\<open>pprint_dict_in_order\<close>\<close>

text \<open>
  A value of the dictionary: a string, or a sequence of strings.  The dictionary is an
  association list with distinct keys, in the order in which \<open>dictionary.keys()\<close>
  lists them.
\<close>

datatype pyvalue = Str string | Items "string list"

text \<open>\<open>repr\<close> of a byte string and \<open>str\<close> of a list of strings.\<close>

definition hex_digit :: "nat \<Rightarrow> char" where
  "hex_digit d = (if d < 10 then char_of (48 + d) else char_of (87 + d))"

definition repr_char :: "char \<Rightarrow> char \<Rightarrow> string" where
  "repr_char q c =
     (let n = (of_char c :: nat) in
      if c = q \<or> c = CHR 0x5C then [CHR 0x5C, c]
      else if n = 9 then [CHR 0x5C, CHR ''t'']
      else if n = 10 then [CHR 0x5C, CHR ''n'']
      else if n = 13 then [CHR 0x5C, CHR ''r'']
      else if n < 32 \<or> 127 \<le> n then [CHR 0x5C, CHR ''x'', hex_digit (n div 16), hex_digit (n mod 16)]
      else [c])"

definition repr_str :: "string \<Rightarrow> string" where
  "repr_str s =
     (let q = (if CHR 0x27 \<in> set s \<and> CHR 0x22 \<notin> set s then CHR 0x22 else CHR 0x27)
      in q # concat (map (repr_char q) s) @ [q])"

fun str_value :: "pyvalue \<Rightarrow> string" where
  "str_value (Str s) = s"
| "str_value (Items xs) = ''['' @ join_str '', '' (map repr_str xs) @ '']''"

text \<open>What \<open>for value_element in value\<close> visits: the characters of a string, the
  elements of a sequence.\<close>

fun iter_value :: "pyvalue \<Rightarrow> string list" where
  "iter_value (Str s) = map (\<lambda>c. [c]) s"
| "iter_value (Items xs) = xs"

fun print_elements :: "string list \<Rightarrow> 'a world_scheme \<Rightarrow> (exn + unit) \<times> 'a world_scheme" where
  "print_elements [] w = (Inr (), w)"
| "print_elements (value_element # rest) w =
     and_then (print_info [''- '', value_element] no_kwargs w) (\<lambda>_ w'. print_elements rest w')"

definition unbound_value :: exn where
  "unbound_value = NameError (''free variable '' @ quoted ''value'' @
     '' referenced before assignment in enclosing scope'')"

text \<open>
  The local function \<open>prettyprint(title, body)\<close>.  Its body reads \<open>value\<close>, which
  is not a parameter but the variable of the enclosing function: the third argument
  here, \<open>None\<close> as long as the enclosing function has not assigned it.
\<close>

definition prettyprint ::
  "string \<Rightarrow> pyvalue \<Rightarrow> pyvalue option \<Rightarrow> 'a world_scheme \<Rightarrow> (exn + unit) \<times> 'a world_scheme" where
  "prettyprint title body value w =
     and_then (print_info [CHR 0x0A # capitalize title @ '':''] no_kwargs w) (\<lambda>_ w'.
       (case body of
          Items _ \<Rightarrow>
            (case value of
               None \<Rightarrow> (Inl unbound_value, w')
             | Some v \<Rightarrow> print_elements (iter_value v) w')
        | Str _ \<Rightarrow>
            (case value of
               None \<Rightarrow> (Inl unbound_value, w')
             | Some v \<Rightarrow> print_info [str_value v] no_kwargs w')))"

text \<open>\<open>keys.index(element)\<close>: the first position, \<open>None\<close> for \<open>ValueError\<close>.\<close>

fun index_of :: "'a list \<Rightarrow> 'a \<Rightarrow> nat option" where
  "index_of [] y = None"
| "index_of (x # xs) y = (if x = y then Some 0 else map_option Suc (index_of xs y))"

text \<open>
  The loop over \<open>order\<close>, on the list \<open>keys\<close> and the variable \<open>value\<close>.
  \<open>keys.pop\<close> has removed the key before \<open>dictionary[key]\<close> is read, and the
  \<open>except\<close> clause passes over both \<open>ValueError\<close> and \<open>KeyError\<close>.
\<close>

fun order_loop ::
  "string list \<Rightarrow> string list \<Rightarrow> (string \<times> pyvalue) list \<Rightarrow> pyvalue option \<Rightarrow> 'a world_scheme \<Rightarrow>
   (exn + string list \<times> pyvalue option) \<times> 'a world_scheme" where
  "order_loop [] keys dictionary value w = (Inr (keys, value), w)"
| "order_loop (element # rest) keys dictionary value w =
     (case index_of keys element of
        None \<Rightarrow> order_loop rest keys dictionary value w
      | Some i \<Rightarrow>
          let key = keys ! i; keys' = take i keys @ drop (Suc i) keys in
          (case map_of dictionary key of
             None \<Rightarrow> order_loop rest keys' dictionary value w
           | Some v \<Rightarrow>
               and_then (prettyprint element v (Some v) w)
                 (\<lambda>_ w'. order_loop rest keys' dictionary (Some v) w')))"

text \<open>The loop over the keys that are left.\<close>

fun rest_loop ::
  "string list \<Rightarrow> (string \<times> pyvalue) list \<Rightarrow> pyvalue option \<Rightarrow> 'a world_scheme \<Rightarrow>
   (exn + unit) \<times> 'a world_scheme" where
  "rest_loop [] dictionary value w = (Inr (), w)"
| "rest_loop (rest_keys # ks) dictionary value w =
     (case map_of dictionary rest_keys of
        None \<Rightarrow> (Inl (KeyError (repr_str rest_keys)), w)
      | Some body \<Rightarrow>
          and_then (prettyprint rest_keys body value w) (\<lambda>_ w'. rest_loop ks dictionary value w'))"

definition pprint_dict_in_order ::
  "(string \<times> pyvalue) list \<Rightarrow> string list option \<Rightarrow> 'a world_scheme \<Rightarrow>
   (exn + unit) \<times> 'a world_scheme" where
  "pprint_dict_in_order dictionary order w =
     (let order' = (case order of None \<Rightarrow> [] | Some xs \<Rightarrow> xs);
          keys = map fst dictionary
      in and_then (order_loop order' keys dictionary None w)
           (\<lambda>(keys', value) w'. rest_loop keys' dictionary value w'))"

subsection \<open>\<open>http_request\<close>\<close>

text \<open>
  The \<open>requests\<close> library is not part of the module; it is a parameter of the model.
  \<open>getattr(requests, name)\<close> is \<open>None\<close> when the library has no such attribute, and
  otherwise the function of that verb, which returns a response or raises.  In
  \<^typ>\<open>exn\<close>, \<open>ConnectionError\<close> stands for that class and its subclasses, and
  \<open>RequestException\<close> for every other class of the library's hierarchy.
\<close>

datatype 'r lib_result = Returned 'r | Raised exn

type_synonym ('k, 'r) requests_lib = "string \<Rightarrow> (string \<Rightarrow> 'k \<Rightarrow> 'r lib_result) option"

definition http_request ::
  "('k, 'r) requests_lib \<Rightarrow> string \<Rightarrow> string \<Rightarrow> 'k \<Rightarrow> 'a world_scheme \<Rightarrow>
   (exn + 'r option) \<times> 'a world_scheme" where
  "http_request requests method url kw w =
     (case requests (lower method) of
        None \<Rightarrow>
          (Inl (AttributeError (quoted ''module'' @ '' object has no attribute '' @ quoted (lower method))), w)
      | Some verb \<Rightarrow>
          (case verb url kw of
             Returned response \<Rightarrow> (Inr (Some response), w)
           | Raised (MissingSchema m) \<Rightarrow>
               and_then (print_error [''Invalid URL format: '' @ url] no_kwargs w) (\<lambda>_ w'. (Inr None, w'))
           | Raised (InvalidSchema m) \<Rightarrow>
               and_then (print_error [''Invalid URL format: '' @ url] no_kwargs w) (\<lambda>_ w'. (Inr None, w'))
           | Raised (ConnectionError m) \<Rightarrow>
               and_then (print_error [''Connection error: '' @ url] no_kwargs w) (\<lambda>_ w'. (Inr None, w'))
           | Raised (RequestException m) \<Rightarrow>
               and_then (print_error [m] no_kwargs w) (\<lambda>_ w'. (Inr None, w'))
           | Raised e \<Rightarrow> (Inl e, w)))"

subsection \<open>The formats the specification describes\<close>

text \<open>
  The definitions of this subsection follow the words of the specification, not the
  code; the properties below compare the code with them.

  A cell left-justified in a column: the text, then spaces up to the width.
\<close>

definition pad :: "string \<Rightarrow> int \<Rightarrow> string" where
  "pad s width = s @ replicate (nat width - length s) (CHR '' '')"

text \<open>
  The width of column \<open>i\<close>: the longest of the header and of the cells of the
  column, a cell without length counting 0, plus \<open>extra_fill\<close>.
\<close>

definition column_width :: "string list \<Rightarrow> cell list list \<Rightarrow> int \<Rightarrow> nat \<Rightarrow> int" where
  "column_width headers rows extra_fill i =
     Max (insert (int (length (headers ! i))) ((\<lambda>row. int (custom_len (row ! i))) ` set rows))
       + extra_fill"

text \<open>
  The lines of a table: a blank line, the headers, the separators, one line for each
  row, a blank line; each of the three kinds with a margin of three spaces.
\<close>

definition table_lines :: "string list \<Rightarrow> cell list list \<Rightarrow> int \<Rightarrow> string \<Rightarrow> string list" where
  "table_lines headers rows extra_fill header_separator =
     (let width = column_width headers rows extra_fill; cols = [0..<length headers] in
      [[],
       ''   '' @ concat (map (\<lambda>i. pad (headers ! i) (width i)) cols),
       ''   '' @ concat (map (\<lambda>i. pad (repeat_str header_separator (length (headers ! i))) (width i)) cols)]
      @ map (\<lambda>row. ''   '' @ concat (map (\<lambda>i. pad (cell_str (row ! i)) (width i)) cols)) rows
      @ [[]])"

text \<open>
  The lines of one entry of a record: the label with a colon after an empty line,
  then the text, or one bulleted line for each element.
\<close>

definition section_lines :: "string \<Rightarrow> pyvalue \<Rightarrow> string list" where
  "section_lines key v =
     (CHR 0x0A # capitalize key @ '':'') #
     (case v of Str s \<Rightarrow> [s] | Items xs \<Rightarrow> map (\<lambda>x. ''-  '' @ x) xs)"

text \<open>
  The keys that \<open>order\<close> selects, in its order, each once; and the keys it leaves.
\<close>

fun ordered_keys :: "string list \<Rightarrow> string list \<Rightarrow> string list" where
  "ordered_keys [] keys = []"
| "ordered_keys (element # rest) keys =
     (if element \<in> set keys then element # ordered_keys rest (remove1 element keys)
      else ordered_keys rest keys)"

fun remaining_keys :: "string list \<Rightarrow> string list \<Rightarrow> string list" where
  "remaining_keys [] keys = keys"
| "remaining_keys (element # rest) keys = remaining_keys rest (remove1 element keys)"

subsection \<open>Handlers, callbacks and a library for concrete runs\<close>

text \<open>A shell state with a counter, and a command handler that increments it.\<close>

record counted = world +
  counter :: nat

definition counting_handler ::
  "string shell \<Rightarrow> unit \<Rightarrow> counted \<Rightarrow> (exn + nat option) \<times> counted" where
  "counting_handler self args w = (Inr (Some (Suc (counter w))), w\<lparr>counter := Suc (counter w)\<rparr>)"

text \<open>A completion callback with two fixed candidates.\<close>

definition complete_use :: "unit \<Rightarrow> arg list \<Rightarrow> unit \<Rightarrow> world \<Rightarrow> (exn + string list) \<times> world" where
  "complete_use self args kw w = (Inr [''exploits/'', ''scanners/''], w)"

text \<open>A library with the single verb \<open>get\<close>, whose outcome depends on the URL.\<close>

definition example_get :: "string \<Rightarrow> unit \<Rightarrow> string lib_result" where
  "example_get url kw =
     (if url = ''192.168.1.1'' then Raised (MissingSchema ''No schema supplied'')
      else if url = ''ftp://192.168.1.1'' then Raised (InvalidSchema ''No connection adapters were found'')
      else if url = ''http://10.255.255.1'' then Raised (ConnectionError ''Max retries exceeded'')
      else if url = ''http://192.168.1.2'' then Raised (RequestException ''Exceeded 30 redirects.'')
      else Returned ''<Response [200]>'')"

definition example_requests :: "(unit, string) requests_lib" where
  "example_requests name = (if name = ''get'' then Some example_get else None)"

section \<open>Properties\<close>

subsection \<open>Path notation\<close>

lemma replace_char_inverse:
  "new \<notin> set s \<Longrightarrow> replace_char new old (replace_char old new s) = s"
  by (induction s) (auto simp: replace_char_def)

text \<open>
  Claim C8.  A path without \<open>.\<close> survives the round trip through the dotted
  notation, and a path without \<open>/\<close> survives the round trip through the slashed
  notation.
\<close>

theorem path_round_trip:
  "(CHR ''.'' \<notin> set p \<longrightarrow> humanize_path (pythonize_path p) = p) \<and>
   (CHR ''/'' \<notin> set p \<longrightarrow> pythonize_path (humanize_path p) = p)"
  by (simp add: humanize_path_def pythonize_path_def replace_char_inverse)

theorem path_round_trip_witness:
  "CHR ''.'' \<notin> set ''foo/bar/baz'' \<and>
   humanize_path (pythonize_path ''foo/bar/baz'') = ''foo/bar/baz'' \<and>
   pythonize_path ''foo/bar/baz'' = ''foo.bar.baz'' \<and>
   CHR ''/'' \<notin> set ''foo.bar.baz'' \<and>
   pythonize_path (humanize_path ''foo.bar.baz'') = ''foo.bar.baz''"
  using path_round_trip [of "''foo/bar/baz''"] path_round_trip [of "''foo.bar.baz''"]
  by (simp add: pythonize_path_def replace_char_def)

subsection \<open>Printing\<close>

lemma and_then_Inr [simp]: "and_then (Inr x, w) k = k x w"
  by (simp add: and_then_def)

lemma and_then_Inl [simp]: "and_then (Inl e, w) k = (Inl e, w)"
  by (simp add: and_then_def)

lemma py_print_plain:
  "py_print args no_kwargs w =
     (Inr (), w\<lparr>written := written w @ [(Stdout, join_str '' '' args @ [CHR 0x0A])]\<rparr>)"
  by (simp add: py_print_def no_kwargs_def)

lemma cprint_plain_default:
  "cprint args no_kwargs w =
     (Inr (), w\<lparr>written := written w @ [(Stdout, join_str '' '' args @ [CHR 0x0A])]\<rparr>)"
  by (simp add: cprint_def py_print_def no_kwargs_def)

text \<open>An error message is one line on the standard output, after the red marker.\<close>

lemma print_error_line:
  "print_error [msg] no_kwargs w =
     (Inr (), w\<lparr>written := written w @ [(Stdout, error_glyph @ '' '' @ msg @ [CHR 0x0A])]\<rparr>)"
  by (simp add: print_error_def cprint_plain_default)

text \<open>With \<open>verbose=False\<close> the call returns at once and writes nothing.\<close>

lemma cprint_not_verbose:
  "kw_verbose kw = Some False \<Longrightarrow> cprint args kw w = (Inr (), w)"
  by (simp add: cprint_def)

text \<open>
  When neither \<open>verbose\<close> nor \<open>color\<close> is among the keyword arguments, the call is
  the built-in \<open>print\<close>: one write to the given stream, of the parts joined by the
  separator and followed by the terminator.
\<close>

lemma cprint_keys_absent:
  "kw_verbose kw = None \<Longrightarrow> kw_color kw = None \<Longrightarrow>
   cprint args kw w =
     (Inr (), w\<lparr>written := written w @
        [(case kw_file kw of None \<Rightarrow> Stdout | Some f \<Rightarrow> f,
          join_str (case kw_sep kw of None \<Rightarrow> '' '' | Some s \<Rightarrow> s) args @
          (case kw_end kw of None \<Rightarrow> [CHR 0x0A] | Some e \<Rightarrow> e))]\<rparr>)"
  by (simp add: cprint_def py_print_def)

text \<open>
  When \<open>verbose=True\<close> is passed and there is no colour, the key \<open>verbose\<close> reaches
  the built-in \<open>print\<close>, which refuses it; likewise a \<open>color\<close> that is \<open>None\<close> or
  empty.  Nothing is written.  The coloured branch does not pass the key on, and
  prints.
\<close>

lemma cprint_verbose_given:
  "kw_verbose kw = Some True \<Longrightarrow> kw_color kw \<in> {None, Some None, Some (Some [])} \<Longrightarrow>
   cprint args kw w = (Inl (invalid_keyword ''verbose''), w)"
  by (auto simp add: cprint_def py_print_def)

lemma cprint_falsy_color_given:
  "kw_verbose kw = None \<Longrightarrow> kw_color kw \<in> {Some None, Some (Some [])} \<Longrightarrow>
   cprint args kw w = (Inl (invalid_keyword ''color''), w)"
  by (auto simp add: cprint_def py_print_def)

lemma cprint_verbose_colored:
  "cprint [''hello''] (no_kwargs\<lparr>kw_verbose := Some True, kw_color := Some (Some ''red'')\<rparr>)
     \<lparr>written = []\<rparr> =
   (Inr (), \<lparr>written = [(Stdout, CHR 0x1B # ''[31m''), (Stdout, ''hello''),
                          (Stdout, CHR 0x1B # ''[0m'' @ [CHR 0x0A])]\<rparr>)"
  by code_simp

text \<open>
  Claim C7.  The claim promises, for verbose true and no colour, the parts joined by
  the separator and followed by the terminator, for every combination of the optional
  arguments.  The call \<open>print_info('hello', verbose=True)\<close> raises \<open>TypeError\<close>
  instead and writes nothing.
\<close>

theorem cprint_verbose_keyword_raises:
  "print_info [''hello''] (no_kwargs\<lparr>kw_verbose := Some True\<rparr>) \<lparr>written = []\<rparr> =
     (Inl (TypeError (quoted ''verbose'' @ '' is an invalid keyword argument for this function'')),
      \<lparr>written = []\<rparr>)"
  by (simp add: print_info_def cprint_def py_print_def no_kwargs_def invalid_keyword_def)

subsection \<open>The activation guard\<close>

text \<open>
  Claim C2.  When the current module of the shell is false in Python's truth test,
  the wrapper writes one error line, returns \<open>None\<close> and leaves the rest of the
  state as it was, whatever the handler is; when it is true, the call is the
  handler's call.
\<close>

theorem module_required_guard:
  "(\<not> truthy (current_module self) \<longrightarrow>
      module_required fn self args w =
        (Inr None, w\<lparr>written := written w @
           [(Stdout, error_glyph @ '' You have to activate any module with '' @ quoted ''use'' @
                     '' command.'' @ [CHR 0x0A])]\<rparr>)) \<and>
   (truthy (current_module self) \<longrightarrow> module_required fn self args w = fn self args w)"
  by (simp add: module_required_def print_error_line)

theorem module_required_guard_witness:
  "\<not> truthy (current_module \<lparr>current_module = (NoneVal :: string flag)\<rparr>) \<and>
   module_required counting_handler \<lparr>current_module = NoneVal\<rparr> () \<lparr>written = [], counter = 0\<rparr> =
     (Inr None,
      \<lparr>written = [(Stdout, error_glyph @ '' You have to activate any module with '' @ quoted ''use'' @
                             '' command.'' @ [CHR 0x0A])],
       counter = 0\<rparr>) \<and>
   \<not> truthy (current_module \<lparr>current_module = (StrVal [] :: string flag)\<rparr>) \<and>
   module_required counting_handler \<lparr>current_module = StrVal []\<rparr> () \<lparr>written = [], counter = 0\<rparr> =
     (Inr None,
      \<lparr>written = [(Stdout, error_glyph @ '' You have to activate any module with '' @ quoted ''use'' @
                             '' command.'' @ [CHR 0x0A])],
       counter = 0\<rparr>) \<and>
   \<not> truthy (current_module \<lparr>current_module = (BoolVal False :: string flag)\<rparr>) \<and>
   module_required counting_handler \<lparr>current_module = BoolVal False\<rparr> () \<lparr>written = [], counter = 0\<rparr> =
     (Inr None,
      \<lparr>written = [(Stdout, error_glyph @ '' You have to activate any module with '' @ quoted ''use'' @
                             '' command.'' @ [CHR 0x0A])],
       counter = 0\<rparr>) \<and>
   truthy (current_module \<lparr>current_module = ModuleObj ''exploits/dlink/dir_300''\<rparr>) \<and>
   module_required counting_handler \<lparr>current_module = ModuleObj ''exploits/dlink/dir_300''\<rparr> ()
       \<lparr>written = [], counter = 0\<rparr> =
     (Inr (Some 1), \<lparr>written = [], counter = 1\<rparr>)"
  using module_required_guard [of "\<lparr>current_module = NoneVal\<rparr>" counting_handler "()"
          "\<lparr>written = [], counter = 0\<rparr>"]
        module_required_guard [of "\<lparr>current_module = StrVal []\<rparr>" counting_handler "()"
          "\<lparr>written = [], counter = 0\<rparr>"]
        module_required_guard [of "\<lparr>current_module = BoolVal False\<rparr>" counting_handler "()"
          "\<lparr>written = [], counter = 0\<rparr>"]
        module_required_guard [of "\<lparr>current_module = ModuleObj ''exploits/dlink/dir_300''\<rparr>" counting_handler "()"
          "\<lparr>written = [], counter = 0\<rparr>"]
  by (simp add: counting_handler_def)

subsection \<open>The completion boundary\<close>

text \<open>The model of \<open>split\<close>: the pieces joined by the separator give the string back,
  and there is one piece more than cuts.\<close>

lemma split_n_not_Nil: "split_n sep n s \<noteq> []"
  by (induction sep n s rule: split_n.induct) (auto split: list.splits)

lemma join_str_Cons: "ps \<noteq> [] \<Longrightarrow> join_str sep (p # ps) = p @ sep @ join_str sep ps"
  by (cases ps) simp_all

lemma join_split_n: "join_str [sep] (split_n sep n s) = s"
proof (induction sep n s rule: split_n.induct)
  case (3 sep n c cs)
  show ?case
  proof (cases "c = sep")
    case True
    with 3 show ?thesis by (simp add: join_str_Cons split_n_not_Nil)
  next
    case False
    obtain p ps where ps: "split_n sep (Suc n) cs = p # ps"
      using split_n_not_Nil [of sep "Suc n" cs] by (cases "split_n sep (Suc n) cs") auto
    with False 3 show ?thesis by (cases ps) auto
  qed
qed simp_all

lemma length_split_n: "length (split_n sep n s) = Suc (min n (count_list s sep))"
  by (induction sep n s rule: split_n.induct) (auto split: list.splits simp: split_n_not_Nil)

lemma length_py_split:
  "length (py_split sep k s) =
     Suc (if k < 0 then count_list s sep else min (nat k) (count_list s sep))"
  by (simp add: py_split_def length_split_n count_le_length min_absorb2)

text \<open>For a limit that is not negative, the test of the wrapper holds exactly when
  the line has at least that many spaces.\<close>

lemma pieces_iff_spaces:
  "0 \<le> k \<Longrightarrow> int (length (py_split sep k s)) = k + 1 \<longleftrightarrow> nat k \<le> count_list s sep"
  by (auto simp add: length_py_split)

text \<open>The inspection raises exactly when there is no second argument or it is no string.\<close>

lemma split_line_raises:
  "(\<exists>err. split_line n args = Inl err) \<longleftrightarrow>
     length args \<le> 1 \<or> (\<exists>t. args ! 1 = ObjArg t)"
  by (auto simp add: split_line_def split: arg.splits)

text \<open>
  Claim C6.  When the second argument is the line and splitting it on spaces with the
  limit \<open>space_number\<close> gives \<open>space_number + 1\<close> pieces, the wrapper returns the
  empty list and the state unchanged, whatever the callback is; with another number
  of pieces the call is the callback's call; when the inspection raises, the message
  is printed and then the callback is called.
\<close>

theorem stop_after_boundary:
  "(1 < length args \<and> args ! 1 = StrArg line \<and>
      int (length (py_split (CHR '' '') space_number line)) = space_number + 1 \<longrightarrow>
      stop_after space_number wrapped self args kw w = (Inr [], w)) \<and>
   (1 < length args \<and> args ! 1 = StrArg line \<and>
      int (length (py_split (CHR '' '') space_number line)) \<noteq> space_number + 1 \<longrightarrow>
      stop_after space_number wrapped self args kw w = wrapped self args kw w) \<and>
   (split_line space_number args = Inl err \<longrightarrow>
      stop_after space_number wrapped self args kw w =
        wrapped self args kw (w\<lparr>written := written w @ [(Stdout, exn_str err @ [CHR 0x0A])]\<rparr>))"
  by (simp add: stop_after_def split_line_def py_print_plain)

theorem stop_after_boundary_witness:
  "int (length (py_split (CHR '' '') 2 ''use exploits/x '')) = 2 + 1 \<and>
   stop_after 2 complete_use () [StrArg [], StrArg ''use exploits/x '', ObjArg ''int'', ObjArg ''int'']
       () \<lparr>written = []\<rparr> = (Inr [], \<lparr>written = []\<rparr>) \<and>
   int (length (py_split (CHR '' '') 2 ''use '')) \<noteq> 2 + 1 \<and>
   stop_after 2 complete_use () [StrArg [], StrArg ''use '', ObjArg ''int'', ObjArg ''int'']
       () \<lparr>written = []\<rparr> = (Inr [''exploits/'', ''scanners/''], \<lparr>written = []\<rparr>) \<and>
   split_line 2 [StrArg []] = Inl (IndexError ''tuple index out of range'') \<and>
   stop_after 2 complete_use () [StrArg []] () \<lparr>written = []\<rparr> =
     (Inr [''exploits/'', ''scanners/''],
      \<lparr>written = [(Stdout, ''tuple index out of range'' @ [CHR 0x0A])]\<rparr>)"
  using stop_after_boundary [where args = "[StrArg [], StrArg ''use exploits/x '', ObjArg ''int'', ObjArg ''int'']"
          and line = "''use exploits/x ''" and space_number = 2 and wrapped = complete_use
          and self = "()" and kw = "()" and w = "\<lparr>written = []\<rparr>"]
        stop_after_boundary [where args = "[StrArg [], StrArg ''use '', ObjArg ''int'', ObjArg ''int'']"
          and line = "''use ''" and space_number = 2 and wrapped = complete_use
          and self = "()" and kw = "()" and w = "\<lparr>written = []\<rparr>"]
        stop_after_boundary [where args = "[StrArg []]" and space_number = 2
          and err = "IndexError ''tuple index out of range''" and wrapped = complete_use
          and self = "()" and kw = "()" and w = "\<lparr>written = []\<rparr>"]
  by (simp add: length_py_split split_line_def complete_use_def)

subsection \<open>The HTTP wrapper\<close>

text \<open>
  Claim C1.  For a verb the library has: a response is returned as it is and nothing
  is written; each of the three kinds of failure writes its one error line and
  returns \<open>None\<close>, and the result is in no case an exception.
\<close>

theorem http_request_outcomes:
  assumes "requests (lower method) = Some verb"
  shows
  "(verb url kw = Returned response \<longrightarrow>
      http_request requests method url kw w = (Inr (Some response), w)) \<and>
   (verb url kw = Raised (MissingSchema m) \<or> verb url kw = Raised (InvalidSchema m) \<longrightarrow>
      http_request requests method url kw w =
        (Inr None, w\<lparr>written := written w @
           [(Stdout, error_glyph @ '' Invalid URL format: '' @ url @ [CHR 0x0A])]\<rparr>)) \<and>
   (verb url kw = Raised (ConnectionError m) \<longrightarrow>
      http_request requests method url kw w =
        (Inr None, w\<lparr>written := written w @
           [(Stdout, error_glyph @ '' Connection error: '' @ url @ [CHR 0x0A])]\<rparr>)) \<and>
   (verb url kw = Raised (RequestException m) \<longrightarrow>
      http_request requests method url kw w =
        (Inr None, w\<lparr>written := written w @ [(Stdout, error_glyph @ '' '' @ m @ [CHR 0x0A])]\<rparr>))"
  using assms by (auto simp add: http_request_def print_error_line)

lemma lower_GET: "lower ''GET'' = ''get''"
  by code_simp

theorem http_request_outcomes_witness:
  "example_requests (lower ''GET'') = Some example_get \<and>
   http_request example_requests ''GET'' ''http://192.168.1.1'' () \<lparr>written = []\<rparr> =
     (Inr (Some ''<Response [200]>''), \<lparr>written = []\<rparr>) \<and>
   http_request example_requests ''GET'' ''192.168.1.1'' () \<lparr>written = []\<rparr> =
     (Inr None, \<lparr>written = [(Stdout, error_glyph @ '' Invalid URL format: 192.168.1.1'' @ [CHR 0x0A])]\<rparr>) \<and>
   http_request example_requests ''GET'' ''ftp://192.168.1.1'' () \<lparr>written = []\<rparr> =
     (Inr None, \<lparr>written = [(Stdout, error_glyph @ '' Invalid URL format: ftp://192.168.1.1'' @ [CHR 0x0A])]\<rparr>) \<and>
   http_request example_requests ''GET'' ''http://10.255.255.1'' () \<lparr>written = []\<rparr> =
     (Inr None, \<lparr>written = [(Stdout, error_glyph @ '' Connection error: http://10.255.255.1'' @ [CHR 0x0A])]\<rparr>) \<and>
   http_request example_requests ''GET'' ''http://192.168.1.2'' () \<lparr>written = []\<rparr> =
     (Inr None, \<lparr>written = [(Stdout, error_glyph @ '' Exceeded 30 redirects.'' @ [CHR 0x0A])]\<rparr>)"
proof -
  have verb: "example_requests (lower ''GET'') = Some example_get"
    by (simp add: lower_GET example_requests_def)
  note at = http_request_outcomes [of example_requests "''GET''" example_get _ "()" _ "\<lparr>written = []\<rparr>",
      OF verb]
  show ?thesis
    using verb
      at [where url = "''http://192.168.1.1''" and response = "''<Response [200]>''"]
      at [where url = "''192.168.1.1''" and m = "''No schema supplied''"]
      at [where url = "''ftp://192.168.1.1''" and m = "''No connection adapters were found''"]
      at [where url = "''http://10.255.255.1''" and m = "''Max retries exceeded''"]
      at [where url = "''http://192.168.1.2''" and m = "''Exceeded 30 redirects.''"]
    by (simp add: example_get_def)
qed

subsection \<open>Tables\<close>

text \<open>
  Claim C4.  When some row differs in length from the headers, the call writes the
  one error line and nothing else, and returns.
\<close>

theorem print_table_rejects_mismatch:
  assumes "\<exists>x \<in> set args. length x \<noteq> length headers"
  shows "print_table headers args extra_fill header_separator w =
     (Inr (), w\<lparr>written := written w @
        [(Stdout, error_glyph @ '' Headers and table rows tuples should be the same length.'' @
                  [CHR 0x0A])]\<rparr>)"
proof -
  from assms have "\<not> list_all (\<lambda>x. length x = length headers) args"
    by (auto simp add: list_all_iff)
  then show ?thesis
    by (simp add: print_table_def print_error_line Let_def)
qed

theorem print_table_rejects_mismatch_witness:
  "(\<exists>x \<in> set [[Text ''rhost'', Text ''192.168.1.1''], [Text ''port'']].
      length x \<noteq> length [''Name'', ''Current setting'']) \<and>
   print_table [''Name'', ''Current setting'']
       [[Text ''rhost'', Text ''192.168.1.1''], [Text ''port'']] None None \<lparr>written = []\<rparr> =
     (Inr (), \<lparr>written =
        [(Stdout, error_glyph @ '' Headers and table rows tuples should be the same length.'' @
                  [CHR 0x0A])]\<rparr>)"
proof -
  have h: "\<exists>x \<in> set [[Text ''rhost'', Text ''192.168.1.1''], [Text ''port'']].
      length x \<noteq> length [''Name'', ''Current setting'']"
    by simp
  show ?thesis
    using h print_table_rejects_mismatch [OF h, of None None "\<lparr>written = []\<rparr>"] by simp
qed

text \<open>
  Claim C10.  With at least one header and no row, \<open>max\<close> receives the length of
  the first header alone and raises \<open>TypeError\<close>; nothing has been written.
\<close>

theorem print_table_no_rows_raises:
  assumes "headers \<noteq> []"
  shows "print_table headers [] extra_fill header_separator w =
     (Inl (TypeError (quoted ''int'' @ '' object is not iterable'')), w)"
proof -
  from assms obtain h hs where "headers = h # hs" by (cases headers) auto
  then show ?thesis
    by (simp add: print_table_def Let_def py_max_def enumerate_eq_zip upt_conv_Cons del: upt_Suc)
qed

theorem print_table_no_rows_raises_witness:
  "[''Target'', ''Port'', ''Login''] \<noteq> [] \<and>
   print_table [''Target'', ''Port'', ''Login''] [] (Some 2) (Some ''='') \<lparr>written = []\<rparr> =
     (Inl (TypeError (quoted ''int'' @ '' object is not iterable'')), \<lparr>written = []\<rparr>)"
proof -
  have h: "[''Target'', ''Port'', ''Login''] \<noteq> []" by simp
  show ?thesis
    using h print_table_no_rows_raises [OF h, of "Some 2" "Some ''=''" "\<lparr>written = []\<rparr>"] by simp
qed

text \<open>
  Claim C5.  The claim gives every table whose rows have the length of the headers
  its column widths.  A table of two headers and no row has rows of the right length,
  yet no column of it is rendered: the call raises.
\<close>

theorem print_table_header_only_example:
  "print_table [''Name'', ''Current setting''] [] None None \<lparr>written = []\<rparr> =
     (Inl (TypeError (quoted ''int'' @ '' object is not iterable'')), \<lparr>written = []\<rparr>)"
  by (simp add: print_table_def py_max_def)

text \<open>
  With at least one row the widths are those of the formula.  The loop over the
  headers, started at any column, yields the widths and the two lines of the columns
  from there on.
\<close>

lemma fold_max_Max: "fold max xs (a::int) = Max (insert a (set xs))"
  by (metis Max.set_eq_fold list.simps(15))

lemma column_lens_in_range:
  "\<forall>x \<in> set args. idx < length x \<Longrightarrow>
   column_lens idx args = Inr (map (\<lambda>x. int (custom_len (x ! idx))) args)"
  by (induction args) auto

lemma format_left_pad: "0 \<le> width \<Longrightarrow> format_left s width = Inr (pad s width)"
  by (simp add: format_left_def pad_def)

lemma current_line_fill_eq:
  "fold max (map (\<lambda>x. int (custom_len (x ! i))) args) (int (length (headers ! i))) + extra_fill
     = column_width headers args extra_fill i"
  by (simp add: column_width_def fold_max_Max)

lemma column_width_ge:
  "int (length (headers ! i)) + extra_fill \<le> column_width headers rows extra_fill i"
proof -
  have "int (length (headers ! i)) \<le>
      Max (insert (int (length (headers ! i))) ((\<lambda>row. int (custom_len (row ! i))) ` set rows))"
    by (rule Max_ge) simp_all
  then show ?thesis unfolding column_width_def by linarith
qed

lemma column_width_nonneg:
  "0 \<le> extra_fill \<Longrightarrow> 0 \<le> column_width headers rows extra_fill i"
  using column_width_ge [of headers i extra_fill rows] by linarith

lemma headers_loop_widths:
  assumes "args \<noteq> []" and "0 \<le> extra_fill"
  shows "\<forall>x \<in> set args. length x = length headers \<Longrightarrow> n + length hs = length headers \<Longrightarrow>
     hs = drop n headers \<Longrightarrow>
     headers_loop (List.enumerate n hs) args extra_fill sep (fill, hl, hsl) =
       Inr (fill @ map (column_width headers args extra_fill) [n..<length headers],
            hl @ concat (map (\<lambda>i. pad (headers ! i) (column_width headers args extra_fill i))
                           [n..<length headers]),
            hsl @ concat (map (\<lambda>i. pad (repeat_str sep (length (headers ! i)))
                                       (column_width headers args extra_fill i)) [n..<length headers]))"
proof (induction hs arbitrary: n fill hl hsl)
  case Nil
  then show ?case by simp
next
  case (Cons h hs)
  from Cons.prems(2) have n: "n < length headers" by simp
  from Cons.prems(3) Cons_nth_drop_Suc [OF n]
  have "h # hs = headers ! n # drop (Suc n) headers" by simp
  then have h: "h = headers ! n" and hs: "hs = drop (Suc n) headers" by simp_all
  have lens: "column_lens n args = Inr (map (\<lambda>x. int (custom_len (x ! n))) args)"
    using Cons.prems n by (intro column_lens_in_range) simp
  have mx: "py_max (int (length (headers ! n))) (map (\<lambda>x. int (custom_len (x ! n))) args)
              = Inr (fold max (map (\<lambda>x. int (custom_len (x ! n))) args) (int (length (headers ! n))))"
    using assms(1) by (simp add: py_max_def)
  have nonneg: "0 \<le> column_width headers args extra_fill n"
    using assms(2) by (rule column_width_nonneg)
  have IH: "headers_loop (List.enumerate (Suc n) hs) args extra_fill sep (fill', hl', hsl') =
       Inr (fill' @ map (column_width headers args extra_fill) [Suc n..<length headers],
            hl' @ concat (map (\<lambda>i. pad (headers ! i) (column_width headers args extra_fill i))
                            [Suc n..<length headers]),
            hsl' @ concat (map (\<lambda>i. pad (repeat_str sep (length (headers ! i)))
                                       (column_width headers args extra_fill i)) [Suc n..<length headers]))"
    for fill' hl' hsl'
    using Cons.prems hs by (intro Cons.IH) auto
  show ?case
    using n by (simp add: lens mx current_line_fill_eq format_left_pad nonneg IH upt_conv_Cons h Let_def)
qed

lemma map_enumerate_nth:
  "map (\<lambda>(i, x). f i x) (List.enumerate 0 xs) = map (\<lambda>i. f i (xs ! i)) [0..<length xs]"
  by (rule nth_equalityI) (simp_all add: nth_enumerate_eq)

lemma content_loop_pads:
  "\<forall>i < length fill. 0 \<le> fill ! i \<Longrightarrow> n + length row \<le> length fill \<Longrightarrow>
   content_loop (List.enumerate n row) fill line =
     Inr (line @ concat (map (\<lambda>(i, c). pad (cell_str c) (fill ! i)) (List.enumerate n row)))"
  by (induction row arbitrary: n line) (simp_all add: format_left_pad)

lemma rows_loop_lines:
  "\<forall>i < length fill. 0 \<le> fill ! i \<Longrightarrow> \<forall>row \<in> set rows. length row \<le> length fill \<Longrightarrow>
   rows_loop rows fill w =
     (Inr (), w\<lparr>written := written w @
        map (\<lambda>row. (Stdout,
               ''   '' @ concat (map (\<lambda>(i, c). pad (cell_str c) (fill ! i)) (List.enumerate 0 row))
               @ [CHR 0x0A])) rows\<rparr>)"
  by (induction rows arbitrary: w) (simp_all add: content_loop_pads py_print_plain)

text \<open>
  A table with at least one row, rows of the length of the headers and an
  \<open>extra_fill\<close> that is not negative is written as the lines of the specification,
  with the widths of its formula.
\<close>

proposition print_table_layout:
  assumes "args \<noteq> []" and "\<forall>x \<in> set args. length x = length headers" and "0 \<le> extra_fill"
  shows "print_table headers args (Some extra_fill) (Some header_separator) w =
     (Inr (), w\<lparr>written := written w @
        map (\<lambda>line. (Stdout, line @ [CHR 0x0A]))
          (table_lines headers args extra_fill header_separator)\<rparr>)"
proof -
  let ?width = "column_width headers args extra_fill"
  let ?fill = "map ?width [0..<length headers]"
  have all: "list_all (\<lambda>x. length x = length headers) args"
    using assms(2) by (simp add: list_all_iff)
  have loop: "headers_loop (List.enumerate 0 headers) args extra_fill header_separator ([], ''   '', ''   '') =
      Inr (?fill,
           ''   '' @ concat (map (\<lambda>i. pad (headers ! i) (?width i)) [0..<length headers]),
           ''   '' @ concat (map (\<lambda>i. pad (repeat_str header_separator (length (headers ! i))) (?width i))
                               [0..<length headers]))"
    using headers_loop_widths [OF assms(1) assms(3) assms(2), of 0 headers header_separator "[]" "''   ''" "''   ''"]
    by simp
  have rows: "rows_loop args ?fill w' =
     (Inr (), w'\<lparr>written := written w' @
        map (\<lambda>row. (Stdout,
               ''   '' @ concat (map (\<lambda>i. pad (cell_str (row ! i)) (?width i)) [0..<length headers])
               @ [CHR 0x0A])) args\<rparr>)" for w' :: "'a world_scheme"
  proof -
    have "rows_loop args ?fill w' =
      (Inr (), w'\<lparr>written := written w' @
        map (\<lambda>row. (Stdout,
               ''   '' @ concat (map (\<lambda>(i, c). pad (cell_str c) (?fill ! i)) (List.enumerate 0 row))
               @ [CHR 0x0A])) args\<rparr>)"
      using assms(2) assms(3) by (intro rows_loop_lines) (simp_all add: column_width_nonneg)
    moreover have "map (\<lambda>(i, c). pad (cell_str c) (?fill ! i)) (List.enumerate 0 row)
                   = map (\<lambda>i. pad (cell_str (row ! i)) (?width i)) [0..<length headers]"
      if "row \<in> set args" for row
      using that assms(2) by (simp add: map_enumerate_nth)
    ultimately show ?thesis by (simp cong: map_cong)
  qed
  show ?thesis
    by (simp add: print_table_def all loop py_print_plain rows table_lines_def Let_def)
qed

text \<open>There the header of a column takes exactly the width of the column.\<close>

lemma length_pad_header:
  "0 \<le> extra_fill \<Longrightarrow>
   int (length (pad (headers ! i) (column_width headers rows extra_fill i)))
     = column_width headers rows extra_fill i"
  using column_width_ge [of headers i extra_fill rows] by (simp add: pad_def)

lemma print_table_docstring_example:
  "print_table [''Name'', ''Current setting'', ''Description'']
     [[Text ''option_name'', Text ''value'', Text ''description''], [Text ''foo'', Unsized ''None'', Text ''baz'']]
     None None \<lparr>written = []\<rparr> =
   (Inr (), \<lparr>written =
     [(Stdout, [CHR 0x0A]),
      (Stdout, ''   Name            Current setting     Description     '' @ [CHR 0x0A]),
      (Stdout, ''   ----            ---------------     -----------     '' @ [CHR 0x0A]),
      (Stdout, ''   option_name     value               description     '' @ [CHR 0x0A]),
      (Stdout, ''   foo             None                baz             '' @ [CHR 0x0A]),
      (Stdout, [CHR 0x0A])]\<rparr>)"
  by code_simp

subsection \<open>Records in order\<close>

text \<open>
  Claim C3.  The claim has every key printed with its own value.  In the example of
  the docstring the ordered keys \<open>sex\<close> and \<open>name\<close> are, but under \<open>Hobby:\<close>
  the code prints the characters of \<open>John\<close>, the value of \<open>name\<close>, in place of
  the two elements \<open>rugby\<close> and \<open>golf\<close>.
\<close>

theorem pprint_dict_docstring_example:
  "pprint_dict_in_order
     [(''name'', Str ''John''), (''sex'', Str ''male''), (''hobby'', Items [''rugby'', ''golf''])]
     (Some [''sex'', ''name'']) \<lparr>written = []\<rparr> =
   (Inr (), \<lparr>written =
      [(Stdout, CHR 0x0A # ''Sex:'' @ [CHR 0x0A]), (Stdout, ''male'' @ [CHR 0x0A]),
       (Stdout, CHR 0x0A # ''Name:'' @ [CHR 0x0A]), (Stdout, ''John'' @ [CHR 0x0A]),
       (Stdout, CHR 0x0A # ''Hobby:'' @ [CHR 0x0A]),
       (Stdout, ''-  J'' @ [CHR 0x0A]), (Stdout, ''-  o'' @ [CHR 0x0A]),
       (Stdout, ''-  h'' @ [CHR 0x0A]), (Stdout, ''-  n'' @ [CHR 0x0A])]\<rparr>)"
  by code_simp

text \<open>Without an order the first key already fails: \<open>value\<close> was never assigned.\<close>

lemma pprint_dict_no_order_example:
  "pprint_dict_in_order [(''name'', Str ''John'')] None \<lparr>written = []\<rparr> =
     (Inl unbound_value, \<lparr>written = [(Stdout, CHR 0x0A # ''Name:'' @ [CHR 0x0A])]\<rparr>)"
  by code_simp

text \<open>
  What \<open>prettyprint\<close> writes when \<open>value\<close> is the value of the key, as in the loop
  over \<open>order\<close>, and when \<open>value\<close> is unassigned.
\<close>

lemma print_elements_lines:
  "print_elements xs w =
     (Inr (), w\<lparr>written := written w @ map (\<lambda>x. (Stdout, ''-  '' @ x @ [CHR 0x0A])) xs\<rparr>)"
  by (induction xs arbitrary: w) (simp_all add: print_info_def cprint_plain_default)

lemma prettyprint_own_value:
  "prettyprint key v (Some v) w =
     (Inr (), w\<lparr>written := written w @ map (\<lambda>l. (Stdout, l @ [CHR 0x0A])) (section_lines key v)\<rparr>)"
  by (cases v) (simp_all add: prettyprint_def print_info_def cprint_plain_default
      print_elements_lines section_lines_def)

lemma prettyprint_unbound:
  "prettyprint key body None w =
     (Inl unbound_value,
      w\<lparr>written := written w @ [(Stdout, CHR 0x0A # capitalize key @ '':'' @ [CHR 0x0A])]\<rparr>)"
  by (cases body) (simp_all add: prettyprint_def print_info_def cprint_plain_default)

text \<open>
  With another value in the variable, the key's own value decides only between the
  two branches; what is written comes from the variable.
\<close>

lemma prettyprint_stale_value:
  "prettyprint key body (Some v) w =
     (Inr (), w\<lparr>written := written w @
        map (\<lambda>l. (Stdout, l @ [CHR 0x0A]))
          ((CHR 0x0A # capitalize key @ '':'') #
           (case body of Str _ \<Rightarrow> [str_value v] | Items _ \<Rightarrow> map (\<lambda>x. ''-  '' @ x) (iter_value v)))\<rparr>)"
  by (cases body) (simp_all add: prettyprint_def print_info_def cprint_plain_default
      print_elements_lines)

lemma index_of_None: "index_of xs y = None \<longleftrightarrow> y \<notin> set xs"
  by (induction xs) auto

lemma index_of_Some:
  "index_of xs y = Some i \<Longrightarrow>
   i < length xs \<and> xs ! i = y \<and> take i xs @ drop (Suc i) xs = remove1 y xs"
  by (induction xs arbitrary: i) (auto split: if_splits)

text \<open>
  The loop over \<open>order\<close> does what the claim says of the ordered keys: it writes the
  entries of the keys that \<open>order\<close> selects, in that order, each once and with its own
  value, passes over the entries of \<open>order\<close> that are no keys, and leaves the other
  keys.
\<close>

lemma order_loop_sections:
  "set keys \<subseteq> fst ` set dictionary \<Longrightarrow>
   \<exists>value'. order_loop order keys dictionary val w =
     (Inr (remaining_keys order keys, value'),
      w\<lparr>written := written w @
         concat (map (\<lambda>k. map (\<lambda>l. (Stdout, l @ [CHR 0x0A]))
                             (section_lines k (the (map_of dictionary k))))
                   (ordered_keys order keys))\<rparr>)"
proof (induction order arbitrary: keys val w)
  case Nil
  then show ?case by simp
next
  case (Cons element rest)
  show ?case
  proof (cases "index_of keys element")
    case None
    then have "element \<notin> set keys" by (simp add: index_of_None)
    with None Cons.IH [OF Cons.prems] show ?thesis by (simp add: remove1_idem)
  next
    case (Some i)
    then have i: "element \<in> set keys" "keys ! i = element"
      "take i keys @ drop (Suc i) keys = remove1 element keys"
      using index_of_Some [OF Some] by (auto simp: in_set_conv_nth)
    with Cons.prems obtain v where v: "map_of dictionary element = Some v"
      by (metis (no_types, opaque_lifting) domD dom_map_of_conv_image_fst subsetD)
    have sub: "set (remove1 element keys) \<subseteq> fst ` set dictionary"
      using Cons.prems set_remove1_subset by fastforce
    let ?w = "w\<lparr>written := written w @
                 map (\<lambda>l. (Stdout, l @ [CHR 0x0A])) (section_lines element v)\<rparr>"
    from Cons.IH [OF sub, of "Some v" ?w] obtain value' where
      "order_loop rest (remove1 element keys) dictionary (Some v) ?w =
         (Inr (remaining_keys rest (remove1 element keys), value'),
          ?w\<lparr>written := written ?w @
            concat (map (\<lambda>k. map (\<lambda>l. (Stdout, l @ [CHR 0x0A]))
                                (section_lines k (the (map_of dictionary k))))
                      (ordered_keys rest (remove1 element keys)))\<rparr>)"
      by blast
    with Some i v show ?thesis
      by (simp add: prettyprint_own_value)
  qed
qed

lemma rest_loop_unbound:
  "map_of dictionary k = Some body \<Longrightarrow>
   rest_loop (k # ks) dictionary None w =
     (Inl unbound_value,
      w\<lparr>written := written w @ [(Stdout, CHR 0x0A # capitalize k @ '':'' @ [CHR 0x0A])]\<rparr>)"
  by (simp add: prettyprint_unbound)

end
